theory Spec2Isabelle
  imports Complex_Main "HOL-Library.Multiset"
begin

section \<open>Shared data model\<close>

text \<open>
  The repository is a Flask application (\<^verbatim>\<open>flask_app/app.py\<close>) with background jobs
  (\<^verbatim>\<open>flask_app/modeling/tasks.py\<close>). Python exceptions are values of \<open>exn\<close>; a function
  that may raise returns \<open>exn + 'a\<close> (\<open>Inl\<close> the exception), and a procedure that returns
  nothing returns \<open>exn option\<close> (\<open>None\<close>: it returned normally).

  \<open>BadRequest\<close>, \<open>NotFound\<close>, \<open>UnprocessableEntity\<close> and \<open>AlreadyExists\<close> are the HTTP
  exceptions named in \<^verbatim>\<open>app.py\<close>, each with its description. \<open>Exception\<close> stands for
  whatever an opaque collaborator (trainer, e-mail delivery) raises, with its \<^verbatim>\<open>str()\<close>.
\<close>

datatype exn =
    BadRequest string
  | NotFound string
  | UnprocessableEntity string
  | AlreadyExists string
  | SchemaError string
  | ValueError string
  | IndexError
  | AssertionError
  | DoesNotExist
  | Exception string

text \<open>The \<^verbatim>\<open>Json\<close> alias of \<^verbatim>\<open>app.py\<close>.\<close>

datatype Json =
    JNull
  | JBool bool
  | JInt int
  | JStr string
  | JList "Json list"
  | JDict "(string \<times> Json) list"

subsection \<open>Job descriptions (\<^verbatim>\<open>queue_manager\<close> typed dictionaries)\<close>

record ClassifierTrainingTaskArgs =
  classifier_id :: int
  labels :: "string list"
  model_path :: string
  train_file :: string
  dev_file :: string
  cache_dir :: string
  output_dir :: string
  num_train_epochs :: int

record ClassifierPredictionTaskArgs =
  test_set_id :: int
  labels :: "string list"
  model_path :: string
  test_file :: string
  cache_dir :: string
  test_output_file :: string

text \<open>
  \<^verbatim>\<open>task_args["task_type"]\<close> is the discriminator of the union
  \<^verbatim>\<open>T.Union[ClassifierTrainingTaskArgs, ClassifierPredictionTaskArgs]\<close>.
\<close>

datatype ClassifierTaskArgs =
    training ClassifierTrainingTaskArgs
  | prediction ClassifierPredictionTaskArgs

record TopicModelTrainingTaskArgs =
  topic_model_id :: int
  training_file :: string
  iterations :: int
  mallet_bin_directory :: string
  num_topics :: int
  fname_keywords :: string
  fname_topics_by_doc :: string

subsection \<open>Stored records (\<^verbatim>\<open>flask_app.db\<close>)\<close>

text \<open>
  Modelled from the spec: \<^verbatim>\<open>flask_app/db.py\<close> is not among the sources. The records carry
  the fields the two source files read and write; a row is addressed by its integer key,
  the primary key (\<^verbatim>\<open>classifier_id\<close>, \<^verbatim>\<open>id_\<close>) is the row's place in its table and not a
  field of the record, and a foreign key is the key of the row it points to (\<open>None\<close> for
  SQL NULL). Metrics are a flat numeric mapping.
\<close>

type_synonym Metrics = "(string \<times> real) list"

record LDASet =
  lda_completed :: bool
  error_encountered :: bool

record TopicModel =
  name :: string
  notify_at_email :: "string option"
  lda_set :: "int option"

record TestSet =
  classifier :: int
  inference_began :: bool
  inference_completed :: bool
  error_encountered :: bool
  notify_at_email :: "string option"

record LabeledSet =
  training_or_inference_completed :: bool
  error_encountered :: bool
  metrics :: "Metrics option"

record Classifier =
  name :: string
  trained_by_openFraming :: bool
  category_names :: "string list"
  dir_path :: string
  notify_at_email :: "string option"
  train_set :: "int option"
  dev_set :: "int option"

text \<open>
  Modelled from the spec: \<^verbatim>\<open>flask_app/utils.py\<close> is not among the sources. The paths of
  \<^verbatim>\<open>utils.Files\<close> are namespaced by the classifier's id.
\<close>

datatype path =
    classifier_dir int
  | classifier_train_set_file int
  | classifier_dev_set_file int
  | classifier_output_dir int

record email =
  email_template_name :: string
  to_email :: "string option"
  template_fields :: "(string \<times> string) list"

record training_process =
  labels :: "string list"
  model_path :: string
  data_dir :: path
  cache_dir :: string
  output_dir :: path

text \<open>
  Everything the two files read or change outside their own variables: the tables of the
  database with the next keys it will hand out, the files and directories under the project
  data directory, the scheduler's queue, the e-mails handed to the \<^verbatim>\<open>Emailer\<close> and the log.
\<close>

record world =
  classifiers :: "int \<rightharpoonup> Classifier"
  next_classifier_id :: int
  labeled_sets :: "int \<rightharpoonup> LabeledSet"
  next_labeled_set_id :: int
  metrics_table :: "Metrics list"
  test_sets :: "int \<rightharpoonup> TestSet"
  topic_models :: "int \<rightharpoonup> TopicModel"
  lda_sets :: "int \<rightharpoonup> LDASet"
  files :: "path \<rightharpoonup> string list list"
  directories :: "path set"
  training_queue :: "training_process list"
  emails_sent :: "email list"
  log :: "string list"


section \<open>Background tasks (\<^verbatim>\<open>flask_app/modeling/tasks.py\<close>)\<close>

text \<open>
  The opaque collaborators of the tasks. A constructor or method that raises returns
  \<open>Inl\<close> (or \<open>Some\<close>) of the exception's text. \<open>'m\<close> is a constructed \<^verbatim>\<open>ClassifierModel\<close>,
  \<open>'c\<close> a \<^verbatim>\<open>Corpus\<close>, \<open>'l\<close> an \<^verbatim>\<open>LDAModeler\<close>. The arguments are the keyword arguments
  of the source, in its order.
\<close>

record ('m, 'c, 'l) collaborators =
  ClassifierModel_for_training ::
    "string list \<Rightarrow> int \<Rightarrow> string \<Rightarrow> string \<Rightarrow> string \<Rightarrow> string \<Rightarrow> string \<Rightarrow> string + 'm"
  train_and_evaluate :: "'m \<Rightarrow> string + Metrics"
  ClassifierModel_for_prediction :: "string list \<Rightarrow> string \<Rightarrow> string \<Rightarrow> string + 'm"
  predict_and_save_predictions :: "'m \<Rightarrow> string \<Rightarrow> string \<Rightarrow> string \<Rightarrow> string \<Rightarrow> string option"
  Corpus :: "string \<Rightarrow> string \<Rightarrow> string \<Rightarrow> string + 'c"
  LDAModeler :: "'c \<Rightarrow> int \<Rightarrow> string \<Rightarrow> string + 'l"
  model_topics_to_spreadsheet :: "'l \<Rightarrow> int \<Rightarrow> string \<Rightarrow> string \<Rightarrow> string option"
  send_email :: "email \<Rightarrow> string option"
  url_for :: "string \<Rightarrow> int \<Rightarrow> int \<Rightarrow> string \<Rightarrow> string \<Rightarrow> string"

record Settings =
  CONTENT_COL :: string
  ID_COL :: string
  PREDICTED_LABEL_COL :: string
  DEFAULT_FILE_FORMAT :: string

text \<open>\<^verbatim>\<open>s.strip(".")\<close>: the dots at both ends are removed.\<close>

definition strip_dots :: "string \<Rightarrow> string" where
  "strip_dots s =
     rev (dropWhile (\<lambda>c. c = CHR ''.'') (rev (dropWhile (\<lambda>c. c = CHR ''.'') s)))"

text \<open>\<^verbatim>\<open>logger.critical(msg)\<close> and \<^verbatim>\<open>emails.Emailer().send_email(...)\<close>: the call is
  recorded in the world; the e-mail's delivery may raise.\<close>

definition critical :: "string \<Rightarrow> world \<Rightarrow> world" where
  "critical msg w = w\<lparr>log := log w @ [msg]\<rparr>"

definition emailer_send_email ::
  "('m, 'c, 'l) collaborators \<Rightarrow> email \<Rightarrow> world \<Rightarrow> exn option \<times> world" where
  "emailer_send_email env mail w =
     (map_option Exception (send_email env mail), w\<lparr>emails_sent := emails_sent w @ [mail]\<rparr>)"

text \<open>\<^verbatim>\<open>row.save()\<close> of a row with key \<open>i\<close>: the table holds the object's fields afterwards.\<close>

definition save_labeled_set :: "int \<Rightarrow> LabeledSet \<Rightarrow> world \<Rightarrow> world" where
  "save_labeled_set i r w = w\<lparr>labeled_sets := (labeled_sets w)(i \<mapsto> r)\<rparr>"

definition save_classifier :: "int \<Rightarrow> Classifier \<Rightarrow> world \<Rightarrow> world" where
  "save_classifier i c w = w\<lparr>classifiers := (classifiers w)(i \<mapsto> c)\<rparr>"

definition save_test_set :: "int \<Rightarrow> TestSet \<Rightarrow> world \<Rightarrow> world" where
  "save_test_set i t w = w\<lparr>test_sets := (test_sets w)(i \<mapsto> t)\<rparr>"

definition save_lda_set :: "int \<Rightarrow> LDASet \<Rightarrow> world \<Rightarrow> world" where
  "save_lda_set i r w = w\<lparr>lda_sets := (lda_sets w)(i \<mapsto> r)\<rparr>"

definition save_metrics :: "Metrics \<Rightarrow> world \<Rightarrow> world" where
  "save_metrics m w = w\<lparr>metrics_table := metrics_table w @ [m]\<rparr>"

subsection \<open>\<^verbatim>\<open>do_classifier_related_task\<close>, the \<^verbatim>\<open>"training"\<close> branch (lines 73 to 111)\<close>

text \<open>
  The \<^verbatim>\<open>finally\<close> clause: \<^verbatim>\<open>clsf.dev_set.save(); clsf.train_set.save(); clsf.save()\<close>, in
  that order.
\<close>

definition training_finally ::
  "int \<Rightarrow> Classifier \<Rightarrow> int \<Rightarrow> LabeledSet \<Rightarrow> int \<Rightarrow> LabeledSet \<Rightarrow> world \<Rightarrow> world" where
  "training_finally cid clsf tid tr did dv w =
     save_classifier cid clsf (save_labeled_set tid tr (save_labeled_set did dv w))"

text \<open>
  \<^verbatim>\<open>db.Classifier.get\<close> raises \<^verbatim>\<open>DoesNotExist\<close> when there is no such row; reading
  \<^verbatim>\<open>clsf.train_set\<close> loads the row the foreign key names (\<^verbatim>\<open>None\<close> for NULL, so the
  assertion fails). All of this is before the \<^verbatim>\<open>try\<close>: these exceptions leave the function
  with nothing changed. Inside the \<^verbatim>\<open>try\<close>, \<^verbatim>\<open>except BaseException\<close> catches whatever the
  constructor or \<^verbatim>\<open>train_and_evaluate\<close> raises; an exception of the \<^verbatim>\<open>else\<close> clause leaves
  the function after the \<^verbatim>\<open>finally\<close> clause has run.
\<close>

text \<open>The body of the \<^verbatim>\<open>try\<close> (lines 82 to 91): the constructor, then
  \<^verbatim>\<open>train_and_evaluate\<close>.\<close>

definition training_try_body ::
  "('m, 'c, 'l) collaborators \<Rightarrow> ClassifierTrainingTaskArgs \<Rightarrow> string + Metrics" where
  "training_try_body env task_args =
     (case ClassifierModel_for_training env
             (ClassifierTrainingTaskArgs.labels task_args)
             (num_train_epochs task_args)
             (ClassifierTrainingTaskArgs.model_path task_args)
             (train_file task_args)
             (dev_file task_args)
             (ClassifierTrainingTaskArgs.cache_dir task_args)
             (ClassifierTrainingTaskArgs.output_dir task_args) of
        Inl e \<Rightarrow> Inl e
      | Inr classifier_model \<Rightarrow> train_and_evaluate env classifier_model)"

definition do_classifier_training_task ::
  "('m, 'c, 'l) collaborators \<Rightarrow> ClassifierTrainingTaskArgs \<Rightarrow> world \<Rightarrow> exn option \<times> world" where
  "do_classifier_training_task env task_args w =
    (let cid = classifier_id task_args in
     case classifiers w cid of
       None \<Rightarrow> (Some DoesNotExist, w)
     | Some clsf \<Rightarrow>
    (case train_set clsf of
       None \<Rightarrow> (Some AssertionError, w)
     | Some tid \<Rightarrow>
    (case labeled_sets w tid of
       None \<Rightarrow> (Some DoesNotExist, w)
     | Some tr \<Rightarrow>
    (case dev_set clsf of
       None \<Rightarrow> (Some AssertionError, w)
     | Some did \<Rightarrow>
    (case labeled_sets w did of
       None \<Rightarrow> (Some DoesNotExist, w)
     | Some dv \<Rightarrow>
    (case training_try_body env task_args of
       Inl e \<Rightarrow>
         (let w1 = critical (''Error while doing classifier training task: '' @ e) w;
              tr1 = tr\<lparr>LabeledSet.error_encountered := True\<rparr>;
              dv1 = dv\<lparr>LabeledSet.error_encountered := True\<rparr>
          in (None, training_finally cid clsf tid tr1 did dv1 w1))
     | Inr returned \<Rightarrow>
         (let tr1 = tr\<lparr>training_or_inference_completed := True\<rparr>;
              dv1 = dv\<lparr>training_or_inference_completed := True\<rparr>;
              dv2 = dv1\<lparr>LabeledSet.metrics := Some returned\<rparr>;
              w1 = save_metrics returned w;
              (raised, w2) = emailer_send_email env
                \<lparr>email_template_name = ''classifier_training_finished'',
                 to_email = Classifier.notify_at_email clsf,
                 template_fields = [(''classifier_name'', Classifier.name clsf)]\<rparr> w1
          in (raised, training_finally cid clsf tid tr1 did dv2 w2))))))))"

subsection \<open>\<^verbatim>\<open>do_classifier_related_task\<close>, the \<^verbatim>\<open>"prediction"\<close> branch (lines 34 to 71)\<close>

definition do_classifier_prediction_task ::
  "('m, 'c, 'l) collaborators \<Rightarrow> Settings \<Rightarrow> ClassifierPredictionTaskArgs \<Rightarrow> world
     \<Rightarrow> exn option \<times> world" where
  "do_classifier_prediction_task env settings task_args w =
    (let sid = test_set_id task_args in
     case test_sets w sid of
       None \<Rightarrow> (Some DoesNotExist, w)
     | Some test_set \<Rightarrow>
    (if \<not> inference_began test_set then (Some AssertionError, w)
     else if inference_completed test_set then (Some AssertionError, w)
     else
    (case
       (case ClassifierModel_for_prediction env
               (ClassifierPredictionTaskArgs.labels task_args)
               (ClassifierPredictionTaskArgs.model_path task_args)
               (ClassifierPredictionTaskArgs.cache_dir task_args) of
          Inl e \<Rightarrow> Some e
        | Inr classifier_model \<Rightarrow>
            predict_and_save_predictions env classifier_model
              (test_file task_args) (CONTENT_COL settings) (PREDICTED_LABEL_COL settings)
              (test_output_file task_args)) of
       Some e \<Rightarrow>
         (let w1 = critical (''Error while doing prediction task: '' @ e) w;
              ts1 = test_set\<lparr>TestSet.error_encountered := True\<rparr>
          in (None, save_test_set sid ts1 w1))
     | None \<Rightarrow>
         (let ts1 = test_set\<lparr>inference_completed := True\<rparr>
          in case classifiers w (classifier test_set) of
               None \<Rightarrow> (Some DoesNotExist, save_test_set sid ts1 w)
             | Some clsf \<Rightarrow>
                 (let (raised, w1) = emailer_send_email env
                        \<lparr>email_template_name = ''classifier_inference_finished'',
                         to_email = TestSet.notify_at_email test_set,
                         template_fields =
                           [(''classifier_name'', Classifier.name clsf),
                            (''predictions_url'',
                             url_for env ''ClassifiersTestSetsPredictions''
                               (classifier test_set) sid
                               (strip_dots (DEFAULT_FILE_FORMAT settings)) ''GET'')]\<rparr> w
                  in (raised, save_test_set sid ts1 w1))))))"

definition do_classifier_related_task ::
  "('m, 'c, 'l) collaborators \<Rightarrow> Settings \<Rightarrow> ClassifierTaskArgs \<Rightarrow> world
     \<Rightarrow> exn option \<times> world" where
  "do_classifier_related_task env settings task_args w =
    (case task_args of
       prediction a \<Rightarrow> do_classifier_prediction_task env settings a w
     | training a \<Rightarrow> do_classifier_training_task env a w)"

subsection \<open>\<^verbatim>\<open>do_topic_model_related_task\<close> (lines 114 to 148)\<close>

text \<open>
  The \<^verbatim>\<open>try\<close> holds the two constructors only. \<^verbatim>\<open>model_topics_to_spreadsheet\<close>, which
  trains the model and writes the keyword and topics-by-document files, is called in the
  \<^verbatim>\<open>else\<close> clause: what it raises is not caught by the \<^verbatim>\<open>except\<close> clause; the
  \<^verbatim>\<open>finally\<close> clause runs and the exception leaves the function.
\<close>

text \<open>The body of the \<^verbatim>\<open>try\<close> (lines 119 to 128): the two constructors.\<close>

definition lda_try_body ::
  "('m, 'c, 'l) collaborators \<Rightarrow> Settings \<Rightarrow> TopicModelTrainingTaskArgs \<Rightarrow> string + 'l" where
  "lda_try_body env settings task_args =
     (case Corpus env (training_file task_args) (CONTENT_COL settings) (ID_COL settings) of
        Inl e \<Rightarrow> Inl e
      | Inr corpus \<Rightarrow>
          LDAModeler env corpus (iterations task_args) (mallet_bin_directory task_args))"

definition do_topic_model_related_task ::
  "('m, 'c, 'l) collaborators \<Rightarrow> Settings \<Rightarrow> TopicModelTrainingTaskArgs \<Rightarrow> world
     \<Rightarrow> exn option \<times> world" where
  "do_topic_model_related_task env settings task_args w =
    (case topic_models w (topic_model_id task_args) of
       None \<Rightarrow> (Some DoesNotExist, w)
     | Some topic_mdl \<Rightarrow>
    (case lda_set topic_mdl of
       None \<Rightarrow> (Some AssertionError, w)
     | Some lid \<Rightarrow>
    (case lda_sets w lid of
       None \<Rightarrow> (Some DoesNotExist, w)
     | Some ls \<Rightarrow>
    (case lda_try_body env settings task_args of
       Inl e \<Rightarrow>
         (let w1 = critical (''Error while doing lda training task: '' @ e) w;
              ls1 = ls\<lparr>LDASet.error_encountered := True\<rparr>
          in (None, save_lda_set lid ls1 w1))
     | Inr lda_modeler \<Rightarrow>
         (case model_topics_to_spreadsheet env lda_modeler (num_topics task_args)
                 (fname_keywords task_args) (fname_topics_by_doc task_args) of
            Some e \<Rightarrow> (Some (Exception e), save_lda_set lid ls w)
          | None \<Rightarrow>
              (let ls1 = ls\<lparr>lda_completed := True\<rparr>;
                   (raised, w1) = emailer_send_email env
                     \<lparr>email_template_name = ''topic_model_training_finished'',
                      to_email = TopicModel.notify_at_email topic_mdl,
                      template_fields =
                        [(''topic_model_name'', TopicModel.name topic_mdl),
                         (''topic_model_preview_url'', ''http://NOTDONEYET'')]\<rparr> w
               in (raised, save_lda_set lid ls1 w1)))))))"

section \<open>The upload and creation endpoints (\<^verbatim>\<open>flask_app/app.py\<close>)\<close>

subsection \<open>Python helpers\<close>

text \<open>\<^verbatim>\<open>int(x)\<close> on a float truncates towards zero; \<^verbatim>\<open>str(n)\<close> on an integer is its
  decimal text. Floats are idealised as reals.\<close>

definition py_int :: "real \<Rightarrow> int" where
  "py_int x = (if 0 \<le> x then \<lfloor>x\<rfloor> else \<lceil>x\<rceil>)"

fun str_nat :: "nat \<Rightarrow> string" where
  "str_nat n =
     (if n < 10 then [char_of (48 + n)] else str_nat (n div 10) @ [char_of (48 + n mod 10)])"

declare str_nat.simps [simp del]

definition str_int :: "int \<Rightarrow> string" where
  "str_int i = (if i < 0 then CHR ''-'' # str_nat (nat (- i)) else str_nat (nat i))"

text \<open>\<^verbatim>\<open>sep.join(xs)\<close>.\<close>

fun join :: "string \<Rightarrow> string list \<Rightarrow> string" where
  "join sep [] = []"
| "join sep [x] = x"
| "join sep (x # y # ys) = x @ sep @ join sep (y # ys)"

text \<open>
  \<^verbatim>\<open>repr\<close> of a list of strings, as an f-string prints \<^verbatim>\<open>{category_names}\<close>: every string
  in single quotes (in double quotes when it holds a single quote and no double quote),
  backslashes and the enclosing quote escaped. Characters outside printable ASCII, which
  Python writes as escape sequences, are left as they are.
\<close>

definition repr_str :: "string \<Rightarrow> string" where
  "repr_str s =
     (if CHR 0x27 \<in> set s \<and> CHR 0x22 \<notin> set s then [CHR 0x22] @ s @ [CHR 0x22]
      else [CHR 0x27] @
           concat (map (\<lambda>c. if c = CHR 0x27 \<or> c = CHR 0x5C then [CHR 0x5C, c] else [c]) s) @
           [CHR 0x27])"

definition repr_list :: "string list \<Rightarrow> string" where
  "repr_list xs = ''['' @ join '', '' (map repr_str xs) @ '']''"

text \<open>
  \<^verbatim>\<open>collections.Counter(xs)\<close>: the keys in the order of their first occurrence (a
  dictionary keeps insertion order), each with the number of its occurrences.
\<close>

fun count_up :: "(string \<times> nat) list \<Rightarrow> string \<Rightarrow> (string \<times> nat) list" where
  "count_up [] c = [(c, 1)]"
| "count_up ((k, n) # kvs) c = (if k = c then (k, n + 1) # kvs else (k, n) # count_up kvs c)"

definition Counter :: "string list \<Rightarrow> (string \<times> nat) list" where
  "Counter cs = foldl count_up [] cs"

subsection \<open>\<^verbatim>\<open>flask_restful.reqparse\<close>, as the two parsers are set up\<close>







subsection \<open>\<^verbatim>\<open>ClassifierRelatedResource._classifier_status\<close> (lines 68 to 97)\<close>

definition classifier_status :: "world \<Rightarrow> int \<Rightarrow> Classifier \<Rightarrow> exn + Json" where
  "classifier_status w cid clsf =
     (case
        (case train_set clsf of
           None \<Rightarrow> Inr ''not_begun''
         | Some tid \<Rightarrow>
             (case labeled_sets w tid of
                None \<Rightarrow> Inl DoesNotExist
              | Some tr \<Rightarrow>
                  if training_or_inference_completed tr then Inr ''completed''
                  else Inr ''training'')) of
        Inl e \<Rightarrow> Inl e
      | Inr training_status \<Rightarrow>
          Inr (JDict
            [(''classifier_id'', JInt cid),
             (''name'', JStr (Classifier.name clsf)),
             (''trained_by_openFraming'', JBool (trained_by_openFraming clsf)),
             (''category_names'', JList (map JStr (category_names clsf))),
             (''training_status'', JStr training_status)]))"

subsection \<open>\<^verbatim>\<open>Classifiers\<close>: the parser (lines 105 to 124) and \<^verbatim>\<open>post\<close> (lines 126 to 164)\<close>




subsection \<open>\<^verbatim>\<open>utils.Validate\<close>\<close>

type_synonym table = "string list list"

text \<open>
  Modelled from the spec: \<^verbatim>\<open>utils.Validate.table_has_num_columns\<close> and
  \<^verbatim>\<open>utils.Validate.table_has_headers\<close> are not among the sources. The spec: validation
  "fails with SchemaError if the table does not have exactly two columns or lacks the
  expected header pair"; the header is checked case-sensitively. A table has \<open>n\<close> columns
  when each of its rows has \<open>n\<close> cells; its header is its first row.
\<close>

definition table_has_num_columns :: "table \<Rightarrow> nat \<Rightarrow> exn option" where
  "table_has_num_columns table n =
     (if list_all (\<lambda>row. length row = n) table then None
      else Some (SchemaError ''wrong number of columns''))"

definition table_has_headers :: "table \<Rightarrow> string list \<Rightarrow> exn option" where
  "table_has_headers table headers =
     (case table of
        [] \<Rightarrow> Some (SchemaError ''no header row'')
      | first_row # _ \<Rightarrow>
          if first_row = headers then None else Some (SchemaError ''wrong headers''))"

subsection \<open>\<^verbatim>\<open>ClassifiersTrainingFile._validate_training_file_and_get_data\<close> (lines 271 to 325)\<close>

text \<open>
  What the handler takes from outside \<^verbatim>\<open>app.py\<close>: the constant \<^verbatim>\<open>utils.TEST_SET_SPLIT\<close>,
  \<^verbatim>\<open>utils.Validate.csv_and_get_table\<close> (which reads the uploaded file \<open>'f\<close> into a table or
  raises), the split \<^verbatim>\<open>next(StratifiedShuffleSplit(n_splits=1, test_size=0.2).split(X, y))\<close>
  of scikit-learn (which returns the train and the dev indices or raises), and two settings
  handed on to the scheduler.
\<close>

record 'f app_env =
  TEST_SET_SPLIT :: real
  csv_and_get_table :: "'f \<Rightarrow> exn + table"
  stratified_shuffle_split :: "string list \<Rightarrow> string list \<Rightarrow> exn + (nat list \<times> nat list)"
  TRANSFORMERS_MODEL :: string
  TRANSFORMERS_CACHE_DIR :: string

text \<open>\<^verbatim>\<open>for _, category in table_data\<close>: a row that is not a pair cannot be unpacked.\<close>

fun categories_of :: "table \<Rightarrow> exn + string list" where
  "categories_of [] = Inr []"
| "categories_of (row # rows) =
     (case row of
        [_, category] \<Rightarrow>
          (case categories_of rows of
             Inl e \<Rightarrow> Inl e
           | Inr cs \<Rightarrow> Inr (category # cs))
      | _ \<Rightarrow> Inl (ValueError ''cannot unpack the row into 2 values''))"

definition too_few_examples_message :: "int \<Rightarrow> string" where
  "too_few_examples_message min_num_examples =
     ''We need at least '' @ str_int min_num_examples @ '' labelled examples for this issue.''"

definition category_mismatch_message :: "string list \<Rightarrow> string" where
  "category_mismatch_message category_names_arg =
     ''The categories for this classifier are'' @
     '' '' @ repr_list category_names_arg @ ''. But the uploaded file either'' @
     '' has some categories missing, or has categories in addition to the'' @
     '' ones indicated.''"

definition less_than_two_message :: "string list \<Rightarrow> string" where
  "less_than_two_message categories_with_less_than_two_exs =
     ''There are less than two examples with the categories: '' @
     join '','' categories_with_less_than_two_exs @ ''.'' @
     '' We need at least two examples per category.''"

definition validate_training_file_and_get_data ::
  "'f app_env \<Rightarrow> string list \<Rightarrow> 'f \<Rightarrow> exn + (string list \<times> table)" where
  "validate_training_file_and_get_data env category_names_arg upload =
    (case csv_and_get_table env upload of
       Inl e \<Rightarrow> Inl e
     | Inr table \<Rightarrow>
    (case table_has_num_columns table 2 of
       Some e \<Rightarrow> Inl e
     | None \<Rightarrow>
    (case table_has_headers table [''example'', ''category''] of
       Some e \<Rightarrow> Inl e
     | None \<Rightarrow>
    (case table of
       [] \<Rightarrow> Inl IndexError
     | table_headers # table_data \<Rightarrow>
    (let min_num_examples = py_int (real (length table_data) * TEST_SET_SPLIT env)
     in if int (length table_data) < min_num_examples
        then Inl (BadRequest (too_few_examples_message min_num_examples))
        else
    (case categories_of table_data of
       Inl e \<Rightarrow> Inl e
     | Inr cs \<Rightarrow>
    (let category_names_counter = Counter cs;
         unique_category_names = map fst category_names_counter
     in if set category_names_arg \<noteq> set unique_category_names
        then Inl (UnprocessableEntity (category_mismatch_message category_names_arg))
        else
    (let categories_with_less_than_two_exs =
           map fst (filter (\<lambda>(category, count). count < 2) category_names_counter)
     in if categories_with_less_than_two_exs \<noteq> []
        then Inl (UnprocessableEntity (less_than_two_message categories_with_less_than_two_exs))
        else Inr (table_headers, table_data)))))))))"

subsection \<open>\<^verbatim>\<open>ClassifiersTrainingFile.post\<close> (lines 199 to 269)\<close>

text \<open>\<^verbatim>\<open>X, y = zip(*table_data)\<close>: \<^verbatim>\<open>zip\<close> yields as many columns as the shortest row has
  cells, and the assignment needs exactly two.\<close>

definition unzip_rows :: "table \<Rightarrow> exn + (string list \<times> string list)" where
  "unzip_rows table_data =
     (case table_data of
        [] \<Rightarrow> Inl (ValueError ''not enough values to unpack (expected 2, got 0)'')
      | row # rows \<Rightarrow>
          if fold min (map length rows) (length row) = 2
          then Inr (map (\<lambda>r. r ! 0) table_data, map (\<lambda>r. r ! 1) table_data)
          else Inl (ValueError ''cannot unpack the columns into 2 values''))"

text \<open>\<^verbatim>\<open>[table_data[i] for i in indices]\<close>.\<close>

fun select_rows :: "table \<Rightarrow> nat list \<Rightarrow> exn + table" where
  "select_rows table_data [] = Inr []"
| "select_rows table_data (i # indices) =
     (if i < length table_data
      then (case select_rows table_data indices of
              Inl e \<Rightarrow> Inl e
            | Inr rows \<Rightarrow> Inr (table_data ! i # rows))
      else Inl IndexError)"

text \<open>\<^verbatim>\<open>BaseResource._write_headers_and_data_to_csv\<close> (lines 54 to 62): the file holds
  the header row and the data rows afterwards.\<close>

definition write_headers_and_data_to_csv :: "string list \<Rightarrow> table \<Rightarrow> path \<Rightarrow> world \<Rightarrow> world" where
  "write_headers_and_data_to_csv headers data csvfile w =
     w\<lparr>files := (files w)(csvfile \<mapsto> headers # data)\<rparr>"

text \<open>Modelled from the spec: the fields of a new \<^verbatim>\<open>db.LabeledSet()\<close> (\<^verbatim>\<open>db.py\<close> is not
  among the sources): neither completed nor in error, without metrics.\<close>

definition new_LabeledSet :: LabeledSet where
  "new_LabeledSet =
     \<lparr>training_or_inference_completed = False, error_encountered = False, metrics = None\<rparr>"

definition create_labeled_set :: "world \<Rightarrow> int \<times> world" where
  "create_labeled_set w =
     (let i = next_labeled_set_id w
      in (i, save_labeled_set i new_LabeledSet (w\<lparr>next_labeled_set_id := i + 1\<rparr>)))"

text \<open>\<^verbatim>\<open>ModelScheduler.add_training_process\<close>: the job is put on the queue.\<close>

definition add_training_process :: "training_process \<Rightarrow> world \<Rightarrow> world" where
  "add_training_process job w = w\<lparr>training_queue := training_queue w @ [job]\<rparr>"

text \<open>
  \<open>file_arg\<close> is the uploaded file of the request (\<open>None\<close> when the required argument
  \<^verbatim>\<open>file\<close> is missing). Reading \<^verbatim>\<open>classifier.train_set\<close> loads the row the foreign key
  names.
\<close>

definition ClassifiersTrainingFile_post ::
  "'f app_env \<Rightarrow> int \<Rightarrow> 'f option \<Rightarrow> world \<Rightarrow> (exn + Json) \<times> world" where
  "ClassifiersTrainingFile_post env cid file_arg w =
    (case file_arg of
       None \<Rightarrow> (Inl (BadRequest ''Missing required parameter in an uploaded file''), w)
     | Some upload \<Rightarrow>
    (case classifiers w cid of
       None \<Rightarrow> (Inl (NotFound ''classifier not found.''), w)
     | Some clsf \<Rightarrow>
    (case train_set clsf of
       Some tid \<Rightarrow>
         (case labeled_sets w tid of
            None \<Rightarrow> (Inl DoesNotExist, w)
          | Some _ \<Rightarrow> (Inl (AlreadyExists ''This classifier already has a training set.''), w))
     | None \<Rightarrow>
    (case validate_training_file_and_get_data env (category_names clsf) upload of
       Inl e \<Rightarrow> (Inl e, w)
     | Inr (table_headers, table_data) \<Rightarrow>
    (case unzip_rows table_data of
       Inl e \<Rightarrow> (Inl e, w)
     | Inr (X, y) \<Rightarrow>
    (case stratified_shuffle_split env X y of
       Inl e \<Rightarrow> (Inl e, w)
     | Inr (train_indices, dev_indices) \<Rightarrow>
    (case select_rows table_data train_indices of
       Inl e \<Rightarrow> (Inl e, w)
     | Inr train_data \<Rightarrow>
    (case select_rows table_data dev_indices of
       Inl e \<Rightarrow> (Inl e, w)
     | Inr dev_data \<Rightarrow>
    (let w1 = write_headers_and_data_to_csv table_headers train_data
                (classifier_train_set_file cid) w;
         w2 = write_headers_and_data_to_csv table_headers dev_data
                (classifier_dev_set_file cid) w1;
         (tid, w3) = create_labeled_set w2;
         (did, w4) = create_labeled_set w3;
         w5 = save_classifier cid (clsf\<lparr>train_set := Some tid, dev_set := Some did\<rparr>) w4
     in case classifiers w5 cid of
          None \<Rightarrow> (Inl DoesNotExist, w5)
        | Some refreshed \<Rightarrow>
            (let w6 = w5\<lparr>directories := insert (classifier_output_dir cid) (directories w5)\<rparr>;
                 w7 = add_training_process
                        \<lparr>labels = category_names refreshed,
                         model_path = TRANSFORMERS_MODEL env,
                         data_dir = classifier_dir cid,
                         cache_dir = TRANSFORMERS_CACHE_DIR env,
                         output_dir = classifier_output_dir cid\<rparr> w6
             in (classifier_status w7 cid refreshed, w7)))))))))))"

section \<open>Example inputs\<close>

text \<open>
  A database with two classifiers over the categories \<^verbatim>\<open>pos\<close> and \<^verbatim>\<open>neg\<close>: classifier 1
  has its train set (row 1) and dev set (row 2), both as they are right after the upload;
  classifier 2 has none yet. Topic model 1 has the LDA set 1.
\<close>

definition example_classifier :: Classifier where
  "example_classifier =
     \<lparr>name = ''sentiment'',
      trained_by_openFraming = False,
      category_names = [''pos'', ''neg''],
      dir_path = ''project_data/classifier_1'',
      notify_at_email = Some ''owner@example.org'',
      train_set = Some 1,
      dev_set = Some 2\<rparr>"

definition fresh_classifier :: Classifier where
  "fresh_classifier =
     \<lparr>name = ''stance'',
      trained_by_openFraming = False,
      category_names = [''pos'', ''neg''],
      dir_path = ''project_data/classifier_2'',
      notify_at_email = None,
      train_set = None,
      dev_set = None\<rparr>"

definition example_topic_model :: TopicModel where
  "example_topic_model =
     \<lparr>TopicModel.name = ''news'',
      TopicModel.notify_at_email = Some ''owner@example.org'',
      lda_set = Some 1\<rparr>"

definition example_lda_set :: LDASet where
  "example_lda_set = \<lparr>lda_completed = False, LDASet.error_encountered = False\<rparr>"

definition example_world :: world where
  "example_world =
     \<lparr>classifiers = [1 \<mapsto> example_classifier, 2 \<mapsto> fresh_classifier],
      next_classifier_id = 3,
      labeled_sets = [1 \<mapsto> new_LabeledSet, 2 \<mapsto> new_LabeledSet],
      next_labeled_set_id = 3,
      metrics_table = [],
      test_sets = Map.empty,
      topic_models = [1 \<mapsto> example_topic_model],
      lda_sets = [1 \<mapsto> example_lda_set],
      files = Map.empty,
      directories = {classifier_dir 1, classifier_dir 2},
      training_queue = [],
      emails_sent = [],
      log = []\<rparr>"

definition example_settings :: Settings where
  "example_settings =
     \<lparr>CONTENT_COL = ''example'', ID_COL = ''id'', PREDICTED_LABEL_COL = ''category'',
      DEFAULT_FILE_FORMAT = ''.csv''\<rparr>"

definition example_training_args :: ClassifierTrainingTaskArgs where
  "example_training_args =
     \<lparr>classifier_id = 1,
      ClassifierTrainingTaskArgs.labels = [''pos'', ''neg''],
      ClassifierTrainingTaskArgs.model_path = ''bert-base-uncased'',
      train_file = ''train.csv'',
      dev_file = ''dev.csv'',
      ClassifierTrainingTaskArgs.cache_dir = ''transformers_cache_dir'',
      ClassifierTrainingTaskArgs.output_dir = ''output'',
      num_train_epochs = 3\<rparr>"

definition example_topic_model_args :: TopicModelTrainingTaskArgs where
  "example_topic_model_args =
     \<lparr>topic_model_id = 1,
      training_file = ''docs.csv'',
      iterations = 1000,
      mallet_bin_directory = ''mallet/bin'',
      num_topics = 10,
      fname_keywords = ''keywords.xlsx'',
      fname_topics_by_doc = ''topics_by_doc.xlsx''\<rparr>"

text \<open>
  Collaborators whose every step succeeds (the trainer returns the metrics
  \<^verbatim>\<open>{accuracy: 0.9}\<close>), the same with a trainer that raises, and the same with a
  \<^verbatim>\<open>model_topics_to_spreadsheet\<close> that raises.
\<close>

definition working_collaborators :: "(unit, unit, unit) collaborators" where
  "working_collaborators =
     \<lparr>ClassifierModel_for_training = (\<lambda>_ _ _ _ _ _ _. Inr ()),
      train_and_evaluate = (\<lambda>_. Inr [(''accuracy'', 9 / 10)]),
      ClassifierModel_for_prediction = (\<lambda>_ _ _. Inr ()),
      predict_and_save_predictions = (\<lambda>_ _ _ _ _. None),
      Corpus = (\<lambda>_ _ _. Inr ()),
      LDAModeler = (\<lambda>_ _ _. Inr ()),
      model_topics_to_spreadsheet = (\<lambda>_ _ _ _. None),
      send_email = (\<lambda>_. None),
      url_for = (\<lambda>_ _ _ _ _. ''/api/predictions'')\<rparr>"


definition spreadsheet_raises :: "(unit, unit, unit) collaborators" where
  "spreadsheet_raises =
     working_collaborators\<lparr>model_topics_to_spreadsheet := (\<lambda>_ _ _ _. Some ''mallet failed'')\<rparr>"

text \<open>
  The endpoint's surroundings with \<^verbatim>\<open>TEST_SET_SPLIT\<close> at 0.2. The uploaded file is given
  as the table it parses to. The split stands in for scikit-learn's: every fifth row goes
  to the dev set.
\<close>

definition example_app_env :: "table app_env" where
  "example_app_env =
     \<lparr>TEST_SET_SPLIT = 1 / 5,
      csv_and_get_table = Inr,
      stratified_shuffle_split =
        (\<lambda>X y. Inr (filter (\<lambda>i. i mod 5 \<noteq> 0) [0..<length y],
                     filter (\<lambda>i. i mod 5 = 0) [0..<length y])),
      TRANSFORMERS_MODEL = ''bert-base-uncased'',
      TRANSFORMERS_CACHE_DIR = ''transformers_cache_dir''\<rparr>"

definition extra_category_rows :: table where
  "extra_category_rows =
     [[''good'', ''pos''], [''great'', ''pos''], [''bad'', ''neg''], [''awful'', ''neg''],
      [''fine'', ''neutral''], [''so-so'', ''neutral'']]"

definition missing_category_rows :: table where
  "missing_category_rows = [[''good'', ''pos''], [''great'', ''pos'']]"

definition single_example_rows :: table where
  "single_example_rows = [[''good'', ''pos''], [''great'', ''pos''], [''bad'', ''neg'']]"

definition four_rows :: table where
  "four_rows = [[''good'', ''pos''], [''great'', ''pos''], [''bad'', ''neg''], [''awful'', ''neg'']]"

definition capitalised_header_table :: table where
  "capitalised_header_table =
     [[''Example'', ''Category''], [''good'', ''pos''], [''great'', ''pos''],
      [''bad'', ''neg''], [''awful'', ''neg'']]"





section \<open>Properties of the background tasks\<close>

lemmas task_defs = do_classifier_related_task_def do_classifier_training_task_def
  training_finally_def save_classifier_def save_labeled_set_def critical_def
  emailer_send_email_def save_metrics_def

lemma example_classifier_row:
  "classifiers example_world (classifier_id example_training_args) = Some example_classifier"
  by (simp add: example_world_def example_training_args_def)

lemma example_train_set: "train_set example_classifier = Some 1"
  by (simp add: example_classifier_def)

lemma example_dev_set: "dev_set example_classifier = Some 2"
  by (simp add: example_classifier_def)

lemma example_train_row: "labeled_sets example_world 1 = Some new_LabeledSet"
  by (simp add: example_world_def)

lemma example_dev_row: "labeled_sets example_world 2 = Some new_LabeledSet"
  by (simp add: example_world_def)




text \<open>
  Claim C2. When the trainer returns metrics, the train record is stored completed and
  otherwise unchanged (no metrics are attached to it), the dev record is stored completed
  with the returned metrics, and exactly one e-mail is handed to the \<^verbatim>\<open>Emailer\<close>: the
  template \<^verbatim>\<open>classifier_training_finished\<close>, addressed to the classifier's
  \<^verbatim>\<open>notify_at_email\<close>. The train and the dev record are two rows. This holds whether or not
  the delivery of the e-mail raises.
\<close>

theorem training_success_completes_both_sets_and_notifies_once:
  assumes "classifiers w (classifier_id a) = Some clsf"
    and "train_set clsf = Some tid" and "labeled_sets w tid = Some tr"
    and "dev_set clsf = Some did" and "labeled_sets w did = Some dv"
    and "tid \<noteq> did"
    and "training_try_body env a = Inr m"
  shows "\<exists>raised w'.
           do_classifier_related_task env settings (training a) w = (raised, w') \<and>
           labeled_sets w' tid = Some (tr\<lparr>training_or_inference_completed := True\<rparr>) \<and>
           labeled_sets w' did =
             Some (dv\<lparr>training_or_inference_completed := True, LabeledSet.metrics := Some m\<rparr>) \<and>
           emails_sent w' = emails_sent w @
             [\<lparr>email_template_name = ''classifier_training_finished'',
               to_email = Classifier.notify_at_email clsf,
               template_fields = [(''classifier_name'', Classifier.name clsf)]\<rparr>]"
  using assms by (auto simp: task_defs Let_def)

theorem training_success_completes_both_sets_and_notifies_once_witness:
  "\<exists>raised w'.
     do_classifier_related_task working_collaborators example_settings
       (training example_training_args) example_world = (raised, w') \<and>
     labeled_sets w' 1 = Some (new_LabeledSet\<lparr>training_or_inference_completed := True\<rparr>) \<and>
     labeled_sets w' 2 =
       Some (new_LabeledSet\<lparr>training_or_inference_completed := True,
               LabeledSet.metrics := Some [(''accuracy'', 9 / 10)]\<rparr>) \<and>
     emails_sent w' = emails_sent example_world @
       [\<lparr>email_template_name = ''classifier_training_finished'',
         to_email = Classifier.notify_at_email example_classifier,
         template_fields = [(''classifier_name'', Classifier.name example_classifier)]\<rparr>]"
proof -
  have returns: "training_try_body working_collaborators example_training_args =
      Inr [(''accuracy'', 9 / 10)]"
    by (simp add: training_try_body_def working_collaborators_def)
  have two_rows: "(1::int) \<noteq> 2" by simp
  show ?thesis
    by (rule training_success_completes_both_sets_and_notifies_once
          [OF example_classifier_row example_train_set example_train_row example_dev_set
              example_dev_row two_rows returns])
qed

text \<open>
  The topic-model task records a failure of the two constructors, \<^verbatim>\<open>Corpus\<close> and
  \<^verbatim>\<open>LDAModeler\<close>: the LDA set is stored with \<^verbatim>\<open>error_encountered\<close> set and no e-mail is
  sent.
\<close>

lemma topic_model_constructor_failure_recorded:
  assumes "topic_models w (topic_model_id a) = Some topic_mdl"
    and "lda_set topic_mdl = Some lid" and "lda_sets w lid = Some ls"
    and "lda_try_body env settings a = Inl e"
  shows "case do_topic_model_related_task env settings a w of (raised, w') \<Rightarrow>
           raised = None \<and>
           lda_sets w' lid = Some (ls\<lparr>LDASet.error_encountered := True\<rparr>) \<and>
           emails_sent w' = emails_sent w"
  using assms by (simp add: do_topic_model_related_task_def save_lda_set_def critical_def)

text \<open>
  Claim C3 says that a failure of any step of the topic-model trainer, the production of
  the keyword and topics-by-document files included, is recorded as \<^verbatim>\<open>error_encountered\<close>
  on the LDA set. The code differs for that last step: \<^verbatim>\<open>model_topics_to_spreadsheet\<close>
  is called in the \<^verbatim>\<open>else\<close> clause, outside the \<^verbatim>\<open>try\<close>. When it raises, the exception
  leaves the task, and the LDA set is stored as it was, so the database, the e-mails and
  the log are all unchanged and \<^verbatim>\<open>error_encountered\<close> is not set.
\<close>

theorem topic_model_spreadsheet_failure_not_recorded:
  assumes "topic_models w (topic_model_id a) = Some topic_mdl"
    and "lda_set topic_mdl = Some lid" and "lda_sets w lid = Some ls"
    and "lda_try_body env settings a = Inr lda_modeler"
    and "model_topics_to_spreadsheet env lda_modeler (num_topics a) (fname_keywords a)
           (fname_topics_by_doc a) = Some e"
  shows "do_topic_model_related_task env settings a w = (Some (Exception e), w)"
  using assms by (simp add: do_topic_model_related_task_def save_lda_set_def map_upd_triv)

theorem topic_model_spreadsheet_failure_not_recorded_witness:
  "do_topic_model_related_task spreadsheet_raises example_settings example_topic_model_args
     example_world = (Some (Exception ''mallet failed''), example_world) \<and>
   lda_sets example_world 1 = Some \<lparr>lda_completed = False, LDASet.error_encountered = False\<rparr>"
proof -
  have 1: "topic_models example_world (topic_model_id example_topic_model_args) =
      Some example_topic_model"
    by (simp add: example_world_def example_topic_model_args_def)
  have 2: "lda_set example_topic_model = Some 1" by (simp add: example_topic_model_def)
  have 3: "lda_sets example_world 1 = Some example_lda_set" by (simp add: example_world_def)
  have 4: "lda_try_body spreadsheet_raises example_settings example_topic_model_args = Inr ()"
    by (simp add: lda_try_body_def spreadsheet_raises_def working_collaborators_def)
  have 5: "model_topics_to_spreadsheet spreadsheet_raises ()
      (num_topics example_topic_model_args) (fname_keywords example_topic_model_args)
      (fname_topics_by_doc example_topic_model_args) = Some ''mallet failed''"
    by (simp add: spreadsheet_raises_def)
  show ?thesis
    using topic_model_spreadsheet_failure_not_recorded [OF 1 2 3 4 5] 3
    by (simp add: example_lda_set_def)
qed

section \<open>Properties of the upload and creation endpoints\<close>

subsection \<open>The counter of categories\<close>

lemma count_up_keys:
  "map fst (count_up kvs c) = (if c \<in> fst ` set kvs then map fst kvs else map fst kvs @ [c])"
  by (induction kvs c rule: count_up.induct) (auto simp: image_iff)

lemma count_up_distinct: "distinct (map fst kvs) \<Longrightarrow> distinct (map fst (count_up kvs c))"
  by (simp add: count_up_keys)

lemma map_of_count_up:
  "map_of (count_up kvs c) k =
     (if k = c then Some (case map_of kvs c of None \<Rightarrow> 1 | Some n \<Rightarrow> n + 1) else map_of kvs k)"
  by (induction kvs c rule: count_up.induct) auto

lemma foldl_count_up_distinct:
  "distinct (map fst acc) \<Longrightarrow> distinct (map fst (foldl count_up acc cs))"
  by (induction cs arbitrary: acc) (auto simp: count_up_distinct)

lemma foldl_count_up_keys:
  "set (map fst (foldl count_up acc cs)) = fst ` set acc \<union> set cs"
proof (induction cs arbitrary: acc)
  case Nil
  then show ?case by simp
next
  case (Cons c cs)
  have "fst ` set (count_up acc c) = insert c (fst ` set acc)"
  proof -
    have "set (map fst (count_up acc c)) = insert c (fst ` set acc)"
      by (auto simp: count_up_keys)
    then show ?thesis by simp
  qed
  with Cons show ?case by auto
qed

lemma map_of_foldl_count_up:
  "map_of (foldl count_up acc cs) k =
     (case map_of acc k of
        None \<Rightarrow> if k \<in> set cs then Some (count_list cs k) else None
      | Some n \<Rightarrow> Some (n + count_list cs k))"
  by (induction cs arbitrary: acc) (auto simp: map_of_count_up split: option.splits)

lemma Counter_keys: "set (map fst (Counter cs)) = set cs"
  using foldl_count_up_keys [of "[]" cs] by (simp add: Counter_def)

lemma Counter_distinct: "distinct (map fst (Counter cs))"
  by (simp add: Counter_def foldl_count_up_distinct)

lemma Counter_member: "(c, n) \<in> set (Counter cs) \<longleftrightarrow> c \<in> set cs \<and> n = count_list cs c"
proof -
  have "(c, n) \<in> set (Counter cs) \<longleftrightarrow> map_of (Counter cs) c = Some n"
    using Counter_distinct by (metis map_of_eq_Some_iff)
  also have "\<dots> \<longleftrightarrow> c \<in> set cs \<and> n = count_list cs c"
    by (auto simp: Counter_def map_of_foldl_count_up)
  finally show ?thesis .
qed

lemma less_than_two_set:
  "set (map fst (filter (\<lambda>(category, count). count < 2) (Counter cs))) =
     {c \<in> set cs. count_list cs c < 2}"
  by (auto simp: Counter_member image_iff)

subsection \<open>The steps of the validation\<close>

lemma categories_of_pairs:
  "list_all (\<lambda>row. length row = 2) rows \<Longrightarrow> categories_of rows = Inr (map (\<lambda>row. row ! 1) rows)"
proof (induction rows)
  case Nil
  then show ?case by simp
next
  case (Cons row rows)
  then obtain a b where "row = [a, b]"
    by (cases row; cases "tl row"; cases "tl (tl row)") auto
  with Cons show ?case by simp
qed

text \<open>With \<^verbatim>\<open>TEST_SET_SPLIT\<close> a fraction, \<^verbatim>\<open>min_num_examples\<close> is at most the number of rows
  it was computed from.\<close>

lemma row_count_check_passes:
  assumes "0 \<le> f" "f \<le> 1"
  shows "\<not> int n < py_int (real n * f)"
proof -
  have "real n * f \<le> real n" using assms by (simp add: mult_left_le)
  moreover have "0 \<le> real n * f" using assms by simp
  ultimately show ?thesis by (simp add: py_int_def floor_less_iff) linarith
qed

lemma join_contains: "c \<in> set xs \<Longrightarrow> \<exists>pre post. join sep xs = pre @ c @ post"
proof (induction sep xs rule: join.induct)
  case (1 sep)
  then show ?case by simp
next
  case (2 sep x)
  then have "join sep [x] = [] @ c @ []" by simp
  then show ?case by blast
next
  case (3 sep x y ys)
  show ?case
  proof (cases "c = x")
    case True
    then have "join sep (x # y # ys) = [] @ c @ (sep @ join sep (y # ys))" by simp
    then show ?thesis by blast
  next
    case False
    with 3 obtain pre post where "join sep (y # ys) = pre @ c @ post" by auto
    then have "join sep (x # y # ys) = (x @ sep @ pre) @ c @ post" by simp
    then show ?thesis by blast
  qed
qed

lemma messages_differ: "less_than_two_message xs \<noteq> category_mismatch_message ys"
  by (simp add: less_than_two_message_def category_mismatch_message_def)

text \<open>What the validation returns for a table with the right header and two cells in
  every row, when \<^verbatim>\<open>TEST_SET_SPLIT\<close> is a fraction.\<close>

lemma validate_schema_ok:
  assumes "csv_and_get_table env upload = Inr ([''example'', ''category''] # table_data)"
    and "list_all (\<lambda>row. length row = 2) table_data"
    and "0 \<le> TEST_SET_SPLIT env" and "TEST_SET_SPLIT env \<le> 1"
  shows "validate_training_file_and_get_data env category_names_arg upload =
     (let cs = map (\<lambda>row. row ! 1) table_data
      in if set category_names_arg \<noteq> set cs
         then Inl (UnprocessableEntity (category_mismatch_message category_names_arg))
         else if map fst (filter (\<lambda>(category, count). count < 2) (Counter cs)) \<noteq> []
         then Inl (UnprocessableEntity (less_than_two_message
                (map fst (filter (\<lambda>(category, count). count < 2) (Counter cs)))))
         else Inr ([''example'', ''category''], table_data))"
  using assms row_count_check_passes [of "TEST_SET_SPLIT env" "length table_data"]
    Counter_keys [of "map (\<lambda>row. row ! 1) table_data"]
  by (simp add: validate_training_file_and_get_data_def table_has_num_columns_def
      table_has_headers_def categories_of_pairs Let_def)

lemma example_fresh_row: "classifiers example_world 2 = Some fresh_classifier"
  by (simp add: example_world_def)

lemma fresh_no_train_set: "train_set fresh_classifier = None"
  by (simp add: fresh_classifier_def)

lemma example_split_fraction:
  "0 \<le> TEST_SET_SPLIT example_app_env" "TEST_SET_SPLIT example_app_env \<le> 1"
  by (simp_all add: example_app_env_def)

lemma example_csv: "csv_and_get_table example_app_env t = Inr t"
  by (simp add: example_app_env_def)

subsection \<open>The rows written to the two files\<close>

text \<open>
  The handler writes the rows at the indices the split returns. When these indices are the
  indices of the table, each once, the rows of the two files together are the rows of the
  table, each as often as the table has it.
\<close>

lemma select_rows_in_range:
  "\<forall>i \<in> set indices. i < length table_data \<Longrightarrow>
     select_rows table_data indices = Inr (map (\<lambda>i. table_data ! i) indices)"
  by (induction indices) auto

lemma selected_rows_partition_table:
  assumes "mset (train_indices @ dev_indices) = mset [0..<length table_data]"
  shows "\<exists>train_data dev_data.
           select_rows table_data train_indices = Inr train_data \<and>
           select_rows table_data dev_indices = Inr dev_data \<and>
           mset train_data + mset dev_data = mset table_data"
proof -
  have "set (train_indices @ dev_indices) = set [0..<length table_data]"
    using assms by (metis set_mset_mset)
  then have range: "\<forall>i \<in> set train_indices. i < length table_data"
      "\<forall>i \<in> set dev_indices. i < length table_data"
    by auto
  have "mset (map (\<lambda>i. table_data ! i) (train_indices @ dev_indices)) =
      mset (map (\<lambda>i. table_data ! i) [0..<length table_data])"
    using assms by (metis mset_map)
  then have "mset (map (\<lambda>i. table_data ! i) train_indices) +
      mset (map (\<lambda>i. table_data ! i) dev_indices) = mset table_data"
    by (simp add: map_nth)
  with range show ?thesis by (simp add: select_rows_in_range)
qed

subsection \<open>Uploading a training file\<close>

text \<open>
  Claim C5. The uploaded table has the header \<^verbatim>\<open>example, category\<close> and two cells in every
  row, and \<^verbatim>\<open>TEST_SET_SPLIT\<close> is a fraction. When the set of the categories in its rows is
  not the set of the classifier's category names (a category is missing, or there is one
  more), the validation fails with \<^verbatim>\<open>UnprocessableEntity\<close> and the message about the
  classifier's categories, and the upload to a classifier without a train set fails with
  that error and leaves everything as it was: no file is written, no record created, no
  job scheduled.
\<close>

theorem upload_with_other_categories_rejected:
  assumes "classifiers w cid = Some clsf" and "train_set clsf = None"
    and "csv_and_get_table env upload = Inr ([''example'', ''category''] # table_data)"
    and "list_all (\<lambda>row. length row = 2) table_data"
    and "0 \<le> TEST_SET_SPLIT env" and "TEST_SET_SPLIT env \<le> 1"
    and "set (map (\<lambda>row. row ! 1) table_data) \<noteq> set (category_names clsf)"
  shows "validate_training_file_and_get_data env (category_names clsf) upload =
           Inl (UnprocessableEntity (category_mismatch_message (category_names clsf))) \<and>
         ClassifiersTrainingFile_post env cid (Some upload) w =
           (Inl (UnprocessableEntity (category_mismatch_message (category_names clsf))), w)"
proof -
  have "validate_training_file_and_get_data env (category_names clsf) upload =
      Inl (UnprocessableEntity (category_mismatch_message (category_names clsf)))"
    using assms(7) by (auto simp: validate_schema_ok [OF assms(3-6)] Let_def)
  then show ?thesis
    using assms(1,2) by (simp add: ClassifiersTrainingFile_post_def)
qed

theorem upload_with_other_categories_rejected_witness:
  "ClassifiersTrainingFile_post example_app_env 2
     (Some ([''example'', ''category''] # extra_category_rows)) example_world =
     (Inl (UnprocessableEntity (category_mismatch_message [''pos'', ''neg''])), example_world) \<and>
   ClassifiersTrainingFile_post example_app_env 2
     (Some ([''example'', ''category''] # missing_category_rows)) example_world =
     (Inl (UnprocessableEntity (category_mismatch_message [''pos'', ''neg''])), example_world)"
proof -
  have cats: "category_names fresh_classifier = [''pos'', ''neg'']"
    by (simp add: fresh_classifier_def)
  have pairs1: "list_all (\<lambda>row. length row = 2) extra_category_rows"
    by (simp add: extra_category_rows_def)
  have "''neutral'' \<in> set (map (\<lambda>row. row ! 1) extra_category_rows)"
    by (simp add: extra_category_rows_def)
  moreover have "''neutral'' \<notin> set (category_names fresh_classifier)"
    by (simp add: cats)
  ultimately have differ1:
    "set (map (\<lambda>row. row ! 1) extra_category_rows) \<noteq> set (category_names fresh_classifier)"
    by blast
  have pairs2: "list_all (\<lambda>row. length row = 2) missing_category_rows"
    by (simp add: missing_category_rows_def)
  have "''neg'' \<notin> set (map (\<lambda>row. row ! 1) missing_category_rows)"
    by (simp add: missing_category_rows_def)
  moreover have "''neg'' \<in> set (category_names fresh_classifier)"
    by (simp add: cats)
  ultimately have differ2:
    "set (map (\<lambda>row. row ! 1) missing_category_rows) \<noteq> set (category_names fresh_classifier)"
    by blast
  show ?thesis
    using upload_with_other_categories_rejected
            [OF example_fresh_row fresh_no_train_set example_csv pairs1
                example_split_fraction differ1]
      upload_with_other_categories_rejected
            [OF example_fresh_row fresh_no_train_set example_csv pairs2
                example_split_fraction differ2]
    by (simp add: cats)
qed

text \<open>
  Claim C6 says that a table with fewer rows than the configured minimum is rejected for
  that, so that some non-empty table is. The code differs: \<^verbatim>\<open>min_num_examples\<close> is
  \<^verbatim>\<open>int(len(table_data) * utils.TEST_SET_SPLIT)\<close>, computed from the very number of rows
  it is compared with. With \<^verbatim>\<open>TEST_SET_SPLIT\<close> a fraction the comparison is never true:
  no table that was read from the upload is answered with \<^verbatim>\<open>BadRequest\<close>, whatever its
  number of rows.
\<close>

theorem row_count_check_never_rejects:
  assumes "0 \<le> TEST_SET_SPLIT env" and "TEST_SET_SPLIT env \<le> 1"
    and "csv_and_get_table env upload = Inr table"
  shows "validate_training_file_and_get_data env category_names_arg upload \<noteq> Inl (BadRequest m)"
  using assms row_count_check_passes [of "TEST_SET_SPLIT env"]
  by (auto simp: validate_training_file_and_get_data_def table_has_num_columns_def
      table_has_headers_def categories_of_pairs Let_def split: list.splits if_splits)

text \<open>A table of four rows, two of each category, is accepted.\<close>

theorem row_count_check_never_rejects_witness:
  "validate_training_file_and_get_data example_app_env [''pos'', ''neg'']
     ([''example'', ''category''] # four_rows) = Inr ([''example'', ''category''], four_rows) \<and>
   (\<forall>m. validate_training_file_and_get_data example_app_env [''pos'', ''neg'']
          ([''example'', ''category''] # four_rows) \<noteq> Inl (BadRequest m))"
proof -
  have pairs: "list_all (\<lambda>row. length row = 2) four_rows"
    by (simp add: four_rows_def)
  have cs: "map (\<lambda>row. row ! 1) four_rows = [''pos'', ''pos'', ''neg'', ''neg'']"
    by (simp add: four_rows_def)
  have counter: "Counter [''pos'', ''pos'', ''neg'', ''neg''] = [(''pos'', 2), (''neg'', 2)]"
    by (simp add: Counter_def)
  have same: "set [''pos'', ''neg''] = set [''pos'', ''pos'', ''neg'', ''neg'']"
    by simp
  have accepted: "validate_training_file_and_get_data example_app_env [''pos'', ''neg'']
      ([''example'', ''category''] # four_rows) = Inr ([''example'', ''category''], four_rows)"
    unfolding validate_schema_ok [OF example_csv pairs example_split_fraction] cs Let_def counter
    using same by simp
  show ?thesis
    using accepted row_count_check_never_rejects [OF example_split_fraction example_csv]
    by blast
qed

text \<open>
  Claim C7. The uploaded table has the right header and two cells in every row,
  \<^verbatim>\<open>TEST_SET_SPLIT\<close> is a fraction, and the set of its categories is the classifier's. When
  a category \<open>c\<close> has fewer than two rows, the validation fails with
  \<^verbatim>\<open>UnprocessableEntity\<close> and the message about categories with less than two examples.
  The categories the message lists are exactly those with fewer than two rows, \<open>c\<close> among
  them; the text of the message holds the name of \<open>c\<close>; and it is not the message for
  differing category sets, which is raised with the same exception class.
\<close>

theorem category_with_single_example_rejected:
  assumes "csv_and_get_table env upload = Inr ([''example'', ''category''] # table_data)"
    and "list_all (\<lambda>row. length row = 2) table_data"
    and "0 \<le> TEST_SET_SPLIT env" and "TEST_SET_SPLIT env \<le> 1"
    and "set (map (\<lambda>row. row ! 1) table_data) = set category_names_arg"
    and "c \<in> set category_names_arg"
    and "count_list (map (\<lambda>row. row ! 1) table_data) c < 2"
  shows "\<exists>offending.
           validate_training_file_and_get_data env category_names_arg upload =
             Inl (UnprocessableEntity (less_than_two_message offending)) \<and>
           set offending =
             {k \<in> set category_names_arg. count_list (map (\<lambda>row. row ! 1) table_data) k < 2} \<and>
           c \<in> set offending \<and>
           (\<exists>pre post. less_than_two_message offending = pre @ c @ post) \<and>
           less_than_two_message offending \<noteq> category_mismatch_message category_names_arg"
proof -
  let ?cs = "map (\<lambda>row. row ! 1) table_data"
  let ?off = "map fst (filter (\<lambda>(category, count). count < 2) (Counter ?cs))"
  have s: "set ?off = {k \<in> set category_names_arg. count_list ?cs k < 2}"
    using less_than_two_set [of ?cs] assms(5) by simp
  with assms(6,7) have m: "c \<in> set ?off" by simp
  then have ne: "?off \<noteq> []" by (metis empty_iff empty_set)
  have v: "validate_training_file_and_get_data env category_names_arg upload =
      Inl (UnprocessableEntity (less_than_two_message ?off))"
    using assms(5) ne by (simp add: validate_schema_ok [OF assms(1-4)] Let_def)
  obtain pre post where "join '','' ?off = pre @ c @ post"
    using join_contains [OF m] by blast
  then have "less_than_two_message ?off =
      (''There are less than two examples with the categories: '' @ pre) @ c @
      (post @ ''.'' @ '' We need at least two examples per category.'')"
    by (simp add: less_than_two_message_def)
  then have "\<exists>pre post. less_than_two_message ?off = pre @ c @ post" by blast
  with v s m messages_differ show ?thesis by blast
qed

theorem category_with_single_example_rejected_witness:
  "\<exists>offending.
     validate_training_file_and_get_data example_app_env [''pos'', ''neg'']
       ([''example'', ''category''] # single_example_rows) =
       Inl (UnprocessableEntity (less_than_two_message offending)) \<and>
     set offending =
       {k \<in> set [''pos'', ''neg''].
          count_list (map (\<lambda>row. row ! 1) single_example_rows) k < 2} \<and>
     ''neg'' \<in> set offending \<and>
     (\<exists>pre post. less_than_two_message offending = pre @ ''neg'' @ post) \<and>
     less_than_two_message offending \<noteq> category_mismatch_message [''pos'', ''neg'']"
proof -
  have pairs: "list_all (\<lambda>row. length row = 2) single_example_rows"
    by (simp add: single_example_rows_def)
  have same: "set (map (\<lambda>row. row ! 1) single_example_rows) = set [''pos'', ''neg'']"
    by (auto simp: single_example_rows_def)
  have declared: "''neg'' \<in> set [''pos'', ''neg'']" by simp
  have once: "count_list (map (\<lambda>row. row ! 1) single_example_rows) ''neg'' < 2"
    by (simp add: single_example_rows_def)
  show ?thesis
    by (rule category_with_single_example_rejected
          [OF example_csv pairs example_split_fraction same declared once])
qed

text \<open>
  Claim C8. When the classifier has a train set already, an upload fails with
  \<^verbatim>\<open>AlreadyExists\<close>, whatever the file holds, and nothing has changed: the records, the
  files and the scheduler's queue are what they were.
\<close>

theorem second_upload_rejected_unchanged:
  assumes "classifiers w cid = Some clsf" and "train_set clsf = Some tid"
    and "labeled_sets w tid = Some tr"
  shows "ClassifiersTrainingFile_post env cid (Some upload) w =
           (Inl (AlreadyExists ''This classifier already has a training set.''), w)"
  using assms by (simp add: ClassifiersTrainingFile_post_def)

theorem second_upload_rejected_unchanged_witness:
  "ClassifiersTrainingFile_post example_app_env 1
     (Some ([''example'', ''category''] # four_rows)) example_world =
     (Inl (AlreadyExists ''This classifier already has a training set.''), example_world)"
proof -
  have "classifiers example_world 1 = Some example_classifier"
    by (simp add: example_world_def)
  then show ?thesis
    by (rule second_upload_rejected_unchanged [OF _ example_train_set example_train_row])
qed

text \<open>
  Claim C9. For a table read from the upload, the validation fails with \<^verbatim>\<open>SchemaError\<close>
  exactly when the table does not have two cells in every row or its first row is not
  \<^verbatim>\<open>example, category\<close> as written (the handler passes this pair of headers). The check
  comes first: the failure is the same for every list of category names and every value
  of \<^verbatim>\<open>TEST_SET_SPLIT\<close>.
\<close>

theorem schema_checked_before_rows_and_categories:
  assumes "csv_and_get_table env upload = Inr table"
  shows "(\<exists>m. \<forall>category_names_arg split.
            validate_training_file_and_get_data (env\<lparr>TEST_SET_SPLIT := split\<rparr>)
              category_names_arg upload = Inl (SchemaError m))
         \<longleftrightarrow> \<not> (list_all (\<lambda>row. length row = 2) table \<and>
                (\<exists>table_data. table = [''example'', ''category''] # table_data))"
proof (cases "list_all (\<lambda>row. length row = 2) table \<and>
                (\<exists>table_data. table = [''example'', ''category''] # table_data)")
  case True
  then obtain table_data where t: "table = [''example'', ''category''] # table_data"
    and l: "list_all (\<lambda>row. length row = 2) table_data" by auto
  have "validate_training_file_and_get_data (env\<lparr>TEST_SET_SPLIT := 0\<rparr>) [] upload
      \<noteq> Inl (SchemaError m)" for m
    using validate_schema_ok [of "env\<lparr>TEST_SET_SPLIT := 0\<rparr>" upload table_data "[]"] assms t l
    by (auto simp: Let_def split: if_splits)
  with True show ?thesis by blast
next
  case False
  then show ?thesis
    using assms
    by (auto simp: validate_training_file_and_get_data_def table_has_num_columns_def
        table_has_headers_def split: list.splits)
qed

text \<open>The header check is case-sensitive.\<close>

theorem schema_checked_before_rows_and_categories_witness:
  "\<exists>m. \<forall>category_names_arg split.
     validate_training_file_and_get_data (example_app_env\<lparr>TEST_SET_SPLIT := split\<rparr>)
       category_names_arg capitalised_header_table = Inl (SchemaError m)"
proof -
  have "\<not> (list_all (\<lambda>row. length row = 2) capitalised_header_table \<and>
      (\<exists>table_data. capitalised_header_table = [''example'', ''category''] # table_data))"
    by (simp add: capitalised_header_table_def)
  then show ?thesis
    using schema_checked_before_rows_and_categories
            [OF example_csv, of capitalised_header_table] by blast
qed

subsection \<open>Creating a classifier\<close>









end
